theory Spec2Isabelle
  imports Main Complex_Main "HOL-Library.Word" "HOL-Library.Sublist"
begin

section \<open>JavaScript strings and values\<close>

text \<open>
  A JavaScript string is a sequence of 16-bit code units. Literals of the source are
  written with \<open>str\<close>; the three non-ASCII units of the source (the degree sign and
  the superscript two) are given by their code units.
\<close>

type_synonym jsstring = "16 word list"

definition str :: "string \<Rightarrow> jsstring" where
  "str s = map (\<lambda>c. of_nat (of_char c)) s"

text \<open>
  White space and line terminators, as \<open>String.prototype.trim\<close> and \<open>parseInt\<close>
  skip them.
\<close>

definition is_space :: "16 word \<Rightarrow> bool" where
  "is_space c \<longleftrightarrow>
     c = 0x09 \<or> c = 0x0A \<or> c = 0x0B \<or> c = 0x0C \<or> c = 0x0D \<or> c = 0x20 \<or> c = 0xA0 \<or>
     c = 0x1680 \<or> (0x2000 \<le> c \<and> c \<le> 0x200A) \<or> c = 0x2028 \<or> c = 0x2029 \<or>
     c = 0x202F \<or> c = 0x205F \<or> c = 0x3000 \<or> c = 0xFEFF"

definition trim :: "jsstring \<Rightarrow> jsstring" where
  "trim s = rev (dropWhile is_space (rev (dropWhile is_space s)))"

text \<open>\<open>s.split(',')\<close>: the pieces between commas; never an empty array.\<close>

fun split_comma :: "jsstring \<Rightarrow> jsstring list" where
  "split_comma [] = [[]]"
| "split_comma (c # cs) =
     (if c = 0x2C then [] # split_comma cs
      else (case split_comma cs of
              [] \<Rightarrow> [[c]]
            | w # ws \<Rightarrow> (c # w) # ws))"

text \<open>
  \<open>parseInt(s, 10)\<close>: leading white space is skipped, then an optional sign, then the
  longest run of decimal digits; \<open>None\<close> is NaN (no digit). The result is kept as an
  exact integer (a double holds every integer up to \<open>2^53\<close> exactly).
\<close>

definition is_digit :: "16 word \<Rightarrow> bool" where
  "is_digit c \<longleftrightarrow> 0x30 \<le> c \<and> c \<le> 0x39"

definition digits_value :: "jsstring \<Rightarrow> int" where
  "digits_value z = foldl (\<lambda>acc c. 10 * acc + (int (unat c) - 48)) 0 z"

definition parseInt :: "jsstring \<Rightarrow> int option" where
  "parseInt s =
     (let S = dropWhile is_space s;
          neg = (case S of [] \<Rightarrow> False | c # _ \<Rightarrow> c = 0x2D);
          S' = (case S of [] \<Rightarrow> [] | c # cs \<Rightarrow> if c = 0x2B \<or> c = 0x2D then cs else S);
          Z = takeWhile is_digit S'
      in if Z = [] then None
         else Some ((if neg then - 1 else 1) * digits_value Z))"

text \<open>
  The values a parsed JSON body is made of, and \<open>undefined\<close>. The program never
  computes with a number: it only tests a value against \<open>null\<close> and \<open>undefined\<close> and
  renders it with \<open>String\<close>. Numbers are therefore an opaque type \<open>'n\<close>, and their
  rendering (\<open>Number.prototype.toString\<close>) is the parameter \<open>nts\<close> below.
\<close>

datatype 'n jsval =
    JUndefined
  | JNull
  | JBool bool
  | JNum 'n
  | JStr jsstring
  | JArr "'n jsval list"
  | JObj "(jsstring \<times> 'n jsval) list"

datatype js_error = TypeError

text \<open>\<open>v === undefined || v === null\<close>\<close>

fun nullish :: "'n jsval \<Rightarrow> bool" where
  "nullish JUndefined = True"
| "nullish JNull = True"
| "nullish _ = False"

text \<open>\<open>v && typeof v === 'object'\<close>: objects and arrays (\<open>null\<close> is falsy).\<close>

fun is_object :: "'n jsval \<Rightarrow> bool" where
  "is_object (JObj _) = True"
| "is_object (JArr _) = True"
| "is_object _ = False"

text \<open>
  \<open>v[k]\<close> for a \<open>v\<close> that is neither \<open>null\<close> nor \<open>undefined\<close>, and a key \<open>k\<close> that no
  built-in prototype defines (every key this program reads is of that kind): the own
  property of an object, and \<open>undefined\<close> otherwise.
\<close>

fun get :: "'n jsval \<Rightarrow> jsstring \<Rightarrow> 'n jsval" where
  "get (JObj ps) k = (case map_of ps k of Some v \<Rightarrow> v | None \<Rightarrow> JUndefined)"
| "get _ k = JUndefined"

text \<open>
  \<open>String(v)\<close>. An array is joined with commas, \<open>null\<close> and \<open>undefined\<close> elements
  giving the empty string. A parsed object is rendered by
  \<open>Object.prototype.toString\<close>, unless it has an own property \<open>toString\<close>: that one is
  not callable, neither is any \<open>valueOf\<close> able to give a primitive, and the
  conversion throws a TypeError.
\<close>

fun String_js :: "('n \<Rightarrow> jsstring) \<Rightarrow> 'n jsval \<Rightarrow> js_error + jsstring"
  and join_js :: "('n \<Rightarrow> jsstring) \<Rightarrow> 'n jsval list \<Rightarrow> js_error + jsstring" where
  "String_js nts JUndefined = Inr (str ''undefined'')"
| "String_js nts JNull = Inr (str ''null'')"
| "String_js nts (JBool b) = Inr (if b then str ''true'' else str ''false'')"
| "String_js nts (JNum n) = Inr (nts n)"
| "String_js nts (JStr s) = Inr s"
| "String_js nts (JArr xs) = join_js nts xs"
| "String_js nts (JObj ps) =
     (if str ''toString'' \<in> fst ` set ps then Inl TypeError
      else Inr (str ''[object Object]''))"
| "join_js nts [] = Inr []"
| "join_js nts (x # xs) =
     (case (if nullish x then Inr [] else String_js nts x) of
        Inl e \<Rightarrow> Inl e
      | Inr a \<Rightarrow>
          (if xs = [] then Inr a
           else (case join_js nts xs of
                   Inl e \<Rightarrow> Inl e
                 | Inr b \<Rightarrow> Inr (a @ str '','' @ b))))"

section \<open>JSON.stringify of the discovery payload\<close>

text \<open>
  \<open>QuoteJSONString\<close>: the seven short escapes, \<open>\uXXXX\<close> (lower-case hexadecimal) for
  the other control characters and for a surrogate that is not part of a pair, and
  every other code unit as it is.
\<close>

definition hex_digit :: "16 word \<Rightarrow> 16 word" where
  "hex_digit d = (if d < 10 then 0x30 + d else 0x57 + d)"

definition unicode_escape :: "16 word \<Rightarrow> jsstring" where
  "unicode_escape c =
     [0x5C, 0x75, hex_digit (drop_bit 12 c), hex_digit (and (drop_bit 8 c) 0xF),
      hex_digit (and (drop_bit 4 c) 0xF), hex_digit (and c 0xF)]"

definition is_high_surrogate :: "16 word \<Rightarrow> bool" where
  "is_high_surrogate c \<longleftrightarrow> 0xD800 \<le> c \<and> c \<le> 0xDBFF"

definition is_low_surrogate :: "16 word \<Rightarrow> bool" where
  "is_low_surrogate c \<longleftrightarrow> 0xDC00 \<le> c \<and> c \<le> 0xDFFF"

text \<open>The backslash is the code unit \<open>0x5C\<close>, the double quote \<open>0x22\<close>.\<close>

definition quote_unit :: "16 word \<Rightarrow> jsstring" where
  "quote_unit c =
     (if c = 0x08 then 0x5C # str ''b''
      else if c = 0x09 then 0x5C # str ''t''
      else if c = 0x0A then 0x5C # str ''n''
      else if c = 0x0C then 0x5C # str ''f''
      else if c = 0x0D then 0x5C # str ''r''
      else if c = 0x22 then [0x5C, 0x22]
      else if c = 0x5C then [0x5C, 0x5C]
      else if c < 0x20 \<or> is_high_surrogate c \<or> is_low_surrogate c then unicode_escape c
      else [c])"

fun quote_units :: "jsstring \<Rightarrow> jsstring" where
  "quote_units [] = []"
| "quote_units [c] = quote_unit c"
| "quote_units (c # d # ds) =
     (if is_high_surrogate c \<and> is_low_surrogate d then c # d # quote_units ds
      else quote_unit c @ quote_units (d # ds))"

definition QuoteJSONString :: "jsstring \<Rightarrow> jsstring" where
  "QuoteJSONString s = 0x22 # quote_units s @ [0x22]"

record device =
  identifiers :: "jsstring list"
  device_name :: jsstring
  manufacturer :: jsstring

text \<open>
  The object \<open>configPayload\<close>: \<open>device_class\<close> and \<open>unit_of_measurement\<close> are
  properties the code adds only under a condition, so they are optional here.
\<close>

record configPayload =
  payload_name :: jsstring
  state_topic :: jsstring
  unique_id :: jsstring
  payload_device :: device
  payload_device_class :: "jsstring option"
  unit_of_measurement :: "jsstring option"

text \<open>A property of an object: the quoted key, a colon, the serialised value.\<close>

definition json_property :: "string \<Rightarrow> jsstring \<Rightarrow> jsstring" where
  "json_property k v = QuoteJSONString (str k) @ str '':'' @ v"

fun stringify_strings :: "jsstring list \<Rightarrow> jsstring" where
  "stringify_strings [] = []"
| "stringify_strings [s] = QuoteJSONString s"
| "stringify_strings (s # t # ts) = QuoteJSONString s @ str '','' @ stringify_strings (t # ts)"

definition stringify_device :: "device \<Rightarrow> jsstring" where
  "stringify_device d =
     str ''{'' @
     json_property ''identifiers'' (str ''['' @ stringify_strings (identifiers d) @ str '']'') @
     str '','' @ json_property ''name'' (QuoteJSONString (device_name d)) @
     str '','' @ json_property ''manufacturer'' (QuoteJSONString (manufacturer d)) @
     str ''}''"

definition stringify_optional :: "string \<Rightarrow> jsstring option \<Rightarrow> jsstring" where
  "stringify_optional k v =
     (case v of None \<Rightarrow> [] | Some s \<Rightarrow> str '','' @ json_property k (QuoteJSONString s))"

text \<open>\<open>JSON.stringify(configPayload)\<close>: the properties in the order they were added.\<close>

definition JSON_stringify :: "configPayload \<Rightarrow> jsstring" where
  "JSON_stringify p =
     str ''{'' @
     json_property ''name'' (QuoteJSONString (payload_name p)) @
     str '','' @ json_property ''state_topic'' (QuoteJSONString (state_topic p)) @
     str '','' @ json_property ''unique_id'' (QuoteJSONString (unique_id p)) @
     str '','' @ json_property ''device'' (stringify_device (payload_device p)) @
     stringify_optional ''device_class'' (payload_device_class p) @
     stringify_optional ''unit_of_measurement'' (unit_of_measurement p) @
     str ''}''"

section \<open>Configuration\<close>

text \<open>
  \<open>process.env\<close>: a variable is absent or holds a string. \<open>falsy\<close> is \<open>!v\<close> for such a
  value; \<open>env_or\<close> is a destructuring default, which applies to an absent variable
  only (not to an empty one).
\<close>

type_synonym env = "string \<rightharpoonup> jsstring"

definition falsy :: "jsstring option \<Rightarrow> bool" where
  "falsy v \<longleftrightarrow> (case v of None \<Rightarrow> True | Some s \<Rightarrow> s = [])"

definition env_or :: "env \<Rightarrow> string \<Rightarrow> jsstring \<Rightarrow> jsstring" where
  "env_or e k d = (case e k of None \<Rightarrow> d | Some s \<Rightarrow> s)"

text \<open>\<open>typeof str === 'string' && str.length > 0 && !/[+#\u0000]/.test(str)\<close>\<close>

definition isValidMqttTopic :: "jsstring option \<Rightarrow> bool" where
  "isValidMqttTopic v \<longleftrightarrow>
     (case v of
        None \<Rightarrow> False
      | Some s \<Rightarrow> length s > 0 \<and> \<not> list_ex (\<lambda>c. c = 0x2B \<or> c = 0x23 \<or> c = 0x00) s)"

record mqttOptions =
  host :: jsstring
  port :: "int option"
  protocol :: jsstring
  clientId :: jsstring
  username :: "jsstring option"
  password :: "jsstring option"

record config =
  SENSOR_NAME :: jsstring
  API_KEY :: jsstring
  stationIds :: "jsstring list"
  retries :: "int option"
  EXEC_EVERY :: jsstring
  broker :: mqttOptions

text \<open>
  The top level of \<open>index.js\<close> up to the call of \<open>mqtt.connect\<close>: the exit code of
  \<open>process.exit\<close>, or the constants the rest of the program reads. \<open>RETRIES\<close> defaults
  to the number 5 and \<open>MQTT_TLS\<close> to the boolean \<open>false\<close>, which is not the
  string \<open>'true'\<close>.
\<close>

definition startup :: "env \<Rightarrow> nat + config" where
  "startup e =
     (if falsy (e ''SENSOR_NAME'') \<or> falsy (e ''API_KEY'') \<or> falsy (e ''STATION_ID'') \<or>
         falsy (e ''MQTT_HOST'') \<or> falsy (e ''MQTT_PORT'')
      then Inl 2
      else if \<not> isValidMqttTopic (e ''SENSOR_NAME'') then Inl 4
      else Inr \<lparr>
        SENSOR_NAME = env_or e ''SENSOR_NAME'' [],
        API_KEY = env_or e ''API_KEY'' [],
        stationIds = map trim (split_comma (env_or e ''STATION_ID'' [])),
        retries = (case e ''RETRIES'' of None \<Rightarrow> Some 5 | Some s \<Rightarrow> parseInt s),
        EXEC_EVERY = env_or e ''EXEC_EVERY'' (str ''1m''),
        broker = \<lparr>
          host = env_or e ''MQTT_HOST'' [],
          port = parseInt (env_or e ''MQTT_PORT'' []),
          protocol = (if e ''MQTT_TLS'' = Some (str ''true'') then str ''mqtts'' else str ''mqtt''),
          clientId = env_or e ''MQTT_CLIENT_ID'' (str ''mqtt-weather-sensor''),
          username = e ''MQTT_USERNAME'',
          password = e ''MQTT_PASSWORD'' \<rparr> \<rparr>)"

section \<open>Effects\<close>

text \<open>
  What the process does to the outside world, in the order it does it: opening the
  broker connection, a call of \<open>fetchWeather\<close> for a station, the wait between two
  attempts (in milliseconds) and a call of \<open>client.publish\<close>. Console output is left
  out.
\<close>

record message =
  topic :: jsstring
  payload :: jsstring
  retain :: bool

datatype event =
    Connect mqttOptions
  | Fetch jsstring
  | Delay nat
  | Publish message

text \<open>How a call ends: it returns, or an exception leaves it.\<close>

datatype completion = Normal | Thrown js_error

section \<open>publishToMqtt\<close>

record 'n sensor =
  key :: jsstring
  name :: jsstring
  device_class :: "jsstring option"
  unit :: "jsstring option"
  val :: "'n jsval"

text \<open>
  The array literal \<open>sensors\<close> (the property \<open>state_transform\<close> of its first element is
  never read and is left out). \<open>obs\<close> is neither \<open>null\<close> nor \<open>undefined\<close> here.
\<close>

definition top_sensors :: "'n jsval \<Rightarrow> 'n sensor list" where
  "top_sensors obs =
     [\<lparr>key = str ''obsTimeUtc'', name = str ''Observation Time'', device_class = None,
       unit = None, val = get obs (str ''obsTimeUtc'')\<rparr>,
      \<lparr>key = str ''solarRadiation'', name = str ''Solar Radiation'', device_class = None,
       unit = Some (str ''W/m'' @ [0xB2]), val = get obs (str ''solarRadiation'')\<rparr>,
      \<lparr>key = str ''winddir'', name = str ''Wind Direction'', device_class = None,
       unit = Some [0xB0], val = get obs (str ''winddir'')\<rparr>,
      \<lparr>key = str ''humidity'', name = str ''Humidity'', device_class = Some (str ''humidity''),
       unit = Some (str ''%''), val = get obs (str ''humidity'')\<rparr>]"

text \<open>\<open>Object.entries(metricMap)\<close>: key, name, device class, unit, in the order written.\<close>

definition metricMap :: "(jsstring \<times> jsstring \<times> jsstring option \<times> jsstring option) list" where
  "metricMap =
     [(str ''temp'', str ''Temperature'', Some (str ''temperature''), Some (0xB0 # str ''C'')),
      (str ''heatIndex'', str ''Heat Index'', Some (str ''temperature''), Some (0xB0 # str ''C'')),
      (str ''dewpt'', str ''Dew Point'', Some (str ''temperature''), Some (0xB0 # str ''C'')),
      (str ''windChill'', str ''Wind Chill'', Some (str ''temperature''), Some (0xB0 # str ''C'')),
      (str ''windSpeed'', str ''Wind Speed'', Some (str ''wind_speed''), Some (str ''km/h'')),
      (str ''windGust'', str ''Wind Gust'', Some (str ''wind_speed''), Some (str ''km/h'')),
      (str ''pressure'', str ''Pressure'', Some (str ''pressure''), Some (str ''hPa'')),
      (str ''precipRate'', str ''Precipitation Rate'', None, Some (str ''mm/h'')),
      (str ''precipTotal'', str ''Precipitation Total'', None, Some (str ''mm'')),
      (str ''elev'', str ''Elevation'', None, Some (str ''m''))]"

text \<open>The loop over the metric map: one push for every key whose value is there.\<close>

fun push_metrics ::
  "'n jsval \<Rightarrow> (jsstring \<times> jsstring \<times> jsstring option \<times> jsstring option) list \<Rightarrow> 'n sensor list"
where
  "push_metrics metric [] = []"
| "push_metrics metric ((k, nm, dc, u) # rest) =
     (if \<not> nullish (get metric k)
      then \<lparr>key = k, name = nm, device_class = dc, unit = u, val = get metric k\<rparr>
             # push_metrics metric rest
      else push_metrics metric rest)"

text \<open>The array \<open>sensors\<close> when the publishing loop starts.\<close>

definition sensors :: "'n jsval \<Rightarrow> 'n sensor list" where
  "sensors obs =
     top_sensors obs @
     (if is_object (get obs (str ''metric''))
      then push_metrics (get obs (str ''metric'')) metricMap
      else [])"

definition base :: "jsstring \<Rightarrow> jsstring" where
  "base sensor_name = str ''homeassistant/sensor/'' @ sensor_name"

definition configTopic :: "jsstring \<Rightarrow> jsstring \<Rightarrow> jsstring" where
  "configTopic sensor_name k = base sensor_name @ str ''/'' @ k @ str ''/config''"

definition stateTopic :: "jsstring \<Rightarrow> jsstring \<Rightarrow> jsstring" where
  "stateTopic sensor_name k = base sensor_name @ str ''/'' @ k @ str ''/state''"

definition device_of :: "jsstring \<Rightarrow> device" where
  "device_of sensor_name =
     \<lparr>identifiers = [sensor_name],
      device_name = str ''Weather Station '' @ sensor_name,
      manufacturer = str ''Weather.com''\<rparr>"

text \<open>\<open>if (x)\<close> for \<open>x\<close> a string or \<open>undefined\<close>: the property is set for a non-empty string.\<close>

definition when_truthy :: "jsstring option \<Rightarrow> jsstring option" where
  "when_truthy x = (case x of None \<Rightarrow> None | Some s \<Rightarrow> if s = [] then None else Some s)"

definition configPayload_of :: "jsstring \<Rightarrow> 'n sensor \<Rightarrow> configPayload" where
  "configPayload_of sensor_name s =
     \<lparr>payload_name = str ''Weather '' @ sensor_name @ str '' '' @ name s,
      state_topic = stateTopic sensor_name (key s),
      unique_id = sensor_name @ str ''_'' @ key s,
      payload_device = device_of sensor_name,
      payload_device_class = when_truthy (device_class s),
      unit_of_measurement = when_truthy (unit s)\<rparr>"

definition config_message :: "jsstring \<Rightarrow> 'n sensor \<Rightarrow> message" where
  "config_message sensor_name s =
     \<lparr>topic = configTopic sensor_name (key s),
      payload = JSON_stringify (configPayload_of sensor_name s),
      retain = True\<rparr>"

definition state_message :: "jsstring \<Rightarrow> 'n sensor \<Rightarrow> jsstring \<Rightarrow> message" where
  "state_message sensor_name s text_of_value =
     \<lparr>topic = stateTopic sensor_name (key s), payload = text_of_value, retain = True\<rparr>"

text \<open>
  The publishing loop: a sensor without a value is skipped; for the others the config
  message is published, then \<open>String(sensor.value)\<close> is evaluated (an exception leaves
  the loop there) and the state message is published.
\<close>

fun publish_sensors ::
  "jsstring \<Rightarrow> ('n \<Rightarrow> jsstring) \<Rightarrow> 'n sensor list \<Rightarrow> completion \<times> message list"
where
  "publish_sensors sensor_name nts [] = (Normal, [])"
| "publish_sensors sensor_name nts (s # ss) =
     (if nullish (val s) then publish_sensors sensor_name nts ss
      else (case String_js nts (val s) of
              Inl e \<Rightarrow> (Thrown e, [config_message sensor_name s])
            | Inr v \<Rightarrow>
                (case publish_sensors sensor_name nts ss of
                   (c, ms) \<Rightarrow>
                     (c, config_message sensor_name s # state_message sensor_name s v # ms))))"

text \<open>
  \<open>publishToMqtt(obs)\<close>: reading \<open>obs.obsTimeUtc\<close> throws a TypeError when \<open>obs\<close> is
  \<open>null\<close> or \<open>undefined\<close>, before anything is published.
\<close>

definition publishToMqtt ::
  "jsstring \<Rightarrow> ('n \<Rightarrow> jsstring) \<Rightarrow> 'n jsval \<Rightarrow> completion \<times> message list"
where
  "publishToMqtt sensor_name nts obs =
     (if nullish obs then (Thrown TypeError, [])
      else publish_sensors sensor_name nts (sensors obs))"

section \<open>fetchAndPublish\<close>

text \<open>
  What one call of \<open>fetchWeather\<close> gives to the \<open>try\<close> block: the request is rejected
  (the \<open>await\<close> throws), or the response fails the test
  \<open>response.data && response.data.observations && response.data.observations.length > 0\<close>,
  or it passes it and \<open>response.data.observations[0]\<close> is the value carried. The
  network answers the \<open>n\<close>-th call of a cycle, made for a station.
\<close>

datatype 'n fetch_result = Rejected | NoObservations | Observations "'n jsval"

type_synonym 'n network = "nat \<Rightarrow> jsstring \<Rightarrow> 'n fetch_result"

text \<open>\<open>attempt < retries\<close>: false when \<open>retries\<close> is NaN.\<close>

definition attempt_lt :: "nat \<Rightarrow> int option \<Rightarrow> bool" where
  "attempt_lt attempt r \<longleftrightarrow> (case r of None \<Rightarrow> False | Some k \<Rightarrow> int attempt < k)"

text \<open>
  The \<open>while\<close> loop for one station, from a value of \<open>attempt\<close>, with \<open>n\<close> calls made
  before in the cycle. It gives whether \<open>return true\<close> was reached, the effects, and the
  number of calls made so far. An exception of \<open>publishToMqtt\<close> is caught like a
  rejected request: what was published stays published, and the next attempt follows.
\<close>

function while_attempts ::
  "jsstring \<Rightarrow> ('n \<Rightarrow> jsstring) \<Rightarrow> int option \<Rightarrow> 'n network \<Rightarrow> jsstring \<Rightarrow> nat \<Rightarrow> nat
     \<Rightarrow> bool \<times> event list \<times> nat"
where
  "while_attempts sensor_name nts r net stationId attempt n =
     (if attempt_lt attempt r then
        (case net n stationId of
           Observations obs \<Rightarrow>
             (case publishToMqtt sensor_name nts obs of
                (Normal, ms) \<Rightarrow> (True, Fetch stationId # map Publish ms, Suc n)
              | (Thrown e, ms) \<Rightarrow>
                  (case while_attempts sensor_name nts r net stationId (Suc attempt) (Suc n) of
                     (done, es, n') \<Rightarrow>
                       (done, Fetch stationId # map Publish ms @ Delay 2000 # es, n')))
         | _ \<Rightarrow>
             (case while_attempts sensor_name nts r net stationId (Suc attempt) (Suc n) of
                (done, es, n') \<Rightarrow> (done, Fetch stationId # Delay 2000 # es, n')))
      else (False, [], n))"
  by pat_completeness auto
termination
  by (relation "measure (\<lambda>(sensor_name, nts, r, net, stationId, attempt, n).
        (case r of None \<Rightarrow> 0 | Some k \<Rightarrow> nat k) - attempt)")
     (auto simp: attempt_lt_def split: option.splits)

declare while_attempts.simps [simp del]

datatype cycle_result = ReturnedTrue | ProcessExit nat

text \<open>The \<open>for\<close> loop over the stations, and \<open>process.exit(7)\<close> after it.\<close>

fun for_stations ::
  "jsstring \<Rightarrow> ('n \<Rightarrow> jsstring) \<Rightarrow> int option \<Rightarrow> 'n network \<Rightarrow> jsstring list \<Rightarrow> nat
     \<Rightarrow> cycle_result \<times> event list"
where
  "for_stations sensor_name nts r net [] n = (ProcessExit 7, [])"
| "for_stations sensor_name nts r net (stationId # rest) n =
     (case while_attempts sensor_name nts r net stationId 0 n of
        (True, es, n') \<Rightarrow> (ReturnedTrue, es)
      | (False, es, n') \<Rightarrow>
          (case for_stations sensor_name nts r net rest n' of
             (res, es') \<Rightarrow> (res, es @ es')))"

definition fetchAndPublish ::
  "config \<Rightarrow> ('n \<Rightarrow> jsstring) \<Rightarrow> 'n network \<Rightarrow> cycle_result \<times> event list"
where
  "fetchAndPublish cfg nts net =
     for_stations (SENSOR_NAME cfg) nts (retries cfg) net (stationIds cfg) 0"

section \<open>The connect handler\<close>

text \<open>
  \<open>parseDuration\<close> is a library function and a parameter here: it gives a number, or
  something that is not one (\<open>None\<close>: \<open>null\<close>). \<open>!interval || interval < 1\<close>:
\<close>

definition interval_invalid :: "real option \<Rightarrow> bool" where
  "interval_invalid i \<longleftrightarrow> (case i of None \<Rightarrow> True | Some x \<Rightarrow> x = 0 \<or> x < 1)"

text \<open>
  The process after the handler and the first cycle: it has exited with a code, or it
  runs on, with the timer armed (\<open>Some\<close> of the interval) or without a timer. In timer
  mode later cycles may start while the first one waits; the first cycle is described
  on its own.
\<close>

datatype process_state = Exited nat | Running "real option"

definition on_connect ::
  "(jsstring \<Rightarrow> real option) \<Rightarrow> ('n \<Rightarrow> jsstring) \<Rightarrow> config \<Rightarrow> 'n network
     \<Rightarrow> process_state \<times> event list"
where
  "on_connect parseDuration nts cfg net =
     (if EXEC_EVERY cfg \<noteq> [] then
        (let interval = parseDuration (EXEC_EVERY cfg) in
         if interval_invalid interval then (Exited 3, [])
         else (case fetchAndPublish cfg nts net of
                 (ProcessExit code, es) \<Rightarrow> (Exited code, es)
               | (ReturnedTrue, es) \<Rightarrow> (Running interval, es)))
      else
        (case fetchAndPublish cfg nts net of
           (ProcessExit code, es) \<Rightarrow> (Exited code, es)
         | (ReturnedTrue, es) \<Rightarrow> (Running None, es)))"

text \<open>
  The process from its start to the end of the first cycle, when the broker accepts
  the connection and no \<open>close\<close>, \<open>offline\<close> or \<open>error\<close> event of the broker client
  (each of them ends the process, with code 5, 5 or 6) comes before.
\<close>

definition main_connected ::
  "(jsstring \<Rightarrow> real option) \<Rightarrow> ('n \<Rightarrow> jsstring) \<Rightarrow> env \<Rightarrow> 'n network
     \<Rightarrow> process_state \<times> event list"
where
  "main_connected parseDuration nts e net =
     (case startup e of
        Inl code \<Rightarrow> (Exited code, [])
      | Inr cfg \<Rightarrow>
          (case on_connect parseDuration nts cfg net of
             (st, es) \<Rightarrow> (st, Connect (broker cfg) # es)))"

section \<open>Vocabulary of the properties\<close>

text \<open>
  The calls of \<open>fetchWeather\<close> and the messages published, read off a sequence of
  effects.
\<close>

fun is_observations :: "'n fetch_result \<Rightarrow> bool" where
  "is_observations (Observations obs) = True"
| "is_observations _ = False"

definition fetch_calls :: "event list \<Rightarrow> jsstring list" where
  "fetch_calls es = concat (map (\<lambda>ev. case ev of Fetch s \<Rightarrow> [s] | _ \<Rightarrow> []) es)"

definition publishes :: "event list \<Rightarrow> message list" where
  "publishes es = concat (map (\<lambda>ev. case ev of Publish m \<Rightarrow> [m] | _ \<Rightarrow> []) es)"

text \<open>
  The number of attempts a retry count allows for a station, and the calls a cycle makes
  when no attempt succeeds: every station of the list, in its order, each repeated
  that many times.
\<close>

definition budget :: "int option \<Rightarrow> nat" where
  "budget r = (case r of None \<Rightarrow> 0 | Some k \<Rightarrow> nat k)"

definition plan :: "config \<Rightarrow> jsstring list" where
  "plan cfg = concat (map (replicate (budget (retries cfg))) (stationIds cfg))"

text \<open>
  An attempt succeeds when the \<open>try\<close> block reaches \<open>return true\<close>: the reply carries an
  observation and \<open>publishToMqtt\<close> returns for it. The messages an attempt publishes are
  those of \<open>publishToMqtt\<close> for the observation of its reply, up to its exception if it
  throws one, and none when the reply carries no observation.
\<close>

definition succeeds :: "jsstring \<Rightarrow> ('n \<Rightarrow> jsstring) \<Rightarrow> 'n fetch_result \<Rightarrow> bool" where
  "succeeds sensor_name nts reply \<longleftrightarrow>
     (case reply of
        Observations obs \<Rightarrow> fst (publishToMqtt sensor_name nts obs) = Normal
      | _ \<Rightarrow> False)"

definition reply_messages :: "jsstring \<Rightarrow> ('n \<Rightarrow> jsstring) \<Rightarrow> 'n fetch_result \<Rightarrow> message list" where
  "reply_messages sensor_name nts reply =
     (case reply of
        Observations obs \<Rightarrow> snd (publishToMqtt sensor_name nts obs)
      | _ \<Rightarrow> [])"

text \<open>
  The attempts of a cycle as one loop over a list of planned calls: the two nested loops
  of \<open>fetchAndPublish\<close> are shown below to run exactly this loop over \<open>plan\<close>.
\<close>

fun attempts ::
  "jsstring \<Rightarrow> ('n \<Rightarrow> jsstring) \<Rightarrow> 'n network \<Rightarrow> jsstring list \<Rightarrow> nat \<Rightarrow> bool \<times> event list"
where
  "attempts sensor_name nts net [] n = (False, [])"
| "attempts sensor_name nts net (s # rest) n =
     (case net n s of
        Observations obs \<Rightarrow>
          (case publishToMqtt sensor_name nts obs of
             (Normal, ms) \<Rightarrow> (True, Fetch s # map Publish ms)
           | (Thrown e, ms) \<Rightarrow>
               (case attempts sensor_name nts net rest (Suc n) of
                  (done, es) \<Rightarrow> (done, Fetch s # map Publish ms @ Delay 2000 # es)))
      | _ \<Rightarrow>
          (case attempts sensor_name nts net rest (Suc n) of
             (done, es) \<Rightarrow> (done, Fetch s # Delay 2000 # es)))"

text \<open>
  The fixed order of the keys: the observation time, the solar radiation, the wind
  direction and the humidity, then the ten fields of the metric group. \<open>schema\<close> is
  the array literal and the metric map of \<open>publishToMqtt\<close> as one table of key, display
  name, device class and unit; \<open>sensors\<close> is shown below to be built from it.
\<close>

definition top_keys :: "jsstring list" where
  "top_keys = [str ''obsTimeUtc'', str ''solarRadiation'', str ''winddir'', str ''humidity'']"

definition metric_keys :: "jsstring list" where
  "metric_keys =
     [str ''temp'', str ''heatIndex'', str ''dewpt'', str ''windChill'', str ''windSpeed'',
      str ''windGust'', str ''pressure'', str ''precipRate'', str ''precipTotal'', str ''elev'']"

definition schema_keys :: "jsstring list" where
  "schema_keys = top_keys @ metric_keys"

definition schema :: "(jsstring \<times> jsstring \<times> jsstring option \<times> jsstring option) list" where
  "schema =
     [(str ''obsTimeUtc'', str ''Observation Time'', None, None),
      (str ''solarRadiation'', str ''Solar Radiation'', None, Some (str ''W/m'' @ [0xB2])),
      (str ''winddir'', str ''Wind Direction'', None, Some [0xB0]),
      (str ''humidity'', str ''Humidity'', Some (str ''humidity''), Some (str ''%'')),
      (str ''temp'', str ''Temperature'', Some (str ''temperature''), Some (0xB0 # str ''C'')),
      (str ''heatIndex'', str ''Heat Index'', Some (str ''temperature''), Some (0xB0 # str ''C'')),
      (str ''dewpt'', str ''Dew Point'', Some (str ''temperature''), Some (0xB0 # str ''C'')),
      (str ''windChill'', str ''Wind Chill'', Some (str ''temperature''), Some (0xB0 # str ''C'')),
      (str ''windSpeed'', str ''Wind Speed'', Some (str ''wind_speed''), Some (str ''km/h'')),
      (str ''windGust'', str ''Wind Gust'', Some (str ''wind_speed''), Some (str ''km/h'')),
      (str ''pressure'', str ''Pressure'', Some (str ''pressure''), Some (str ''hPa'')),
      (str ''precipRate'', str ''Precipitation Rate'', None, Some (str ''mm/h'')),
      (str ''precipTotal'', str ''Precipitation Total'', None, Some (str ''mm'')),
      (str ''elev'', str ''Elevation'', None, Some (str ''m''))]"

text \<open>
  The value an observation has for a key of the schema: a top-level property, or a
  property of the metric group.
\<close>

definition field_value :: "'n jsval \<Rightarrow> jsstring \<Rightarrow> 'n jsval" where
  "field_value obs k =
     (if k \<in> set top_keys then get obs k else get (get obs (str ''metric'')) k)"

definition sensor_of ::
  "(jsstring \<Rightarrow> 'n jsval) \<Rightarrow> jsstring \<times> jsstring \<times> jsstring option \<times> jsstring option \<Rightarrow> 'n sensor"
where
  "sensor_of fv entry =
     (case entry of (k, nm, dc, u) \<Rightarrow>
        \<lparr>key = k, name = nm, device_class = dc, unit = u, val = fv k\<rparr>)"

text \<open>The sensors the publishing loop does not skip.\<close>

definition published_sensors :: "'n jsval \<Rightarrow> 'n sensor list" where
  "published_sensors obs = filter (\<lambda>s. \<not> nullish (val s)) (sensors obs)"

text \<open>Whether \<open>String(v)\<close> returns, and the text it gives when it does.\<close>

definition renders :: "('n \<Rightarrow> jsstring) \<Rightarrow> 'n jsval \<Rightarrow> bool" where
  "renders nts v \<longleftrightarrow> (case String_js nts v of Inr t \<Rightarrow> True | Inl e \<Rightarrow> False)"

definition String_text :: "('n \<Rightarrow> jsstring) \<Rightarrow> 'n jsval \<Rightarrow> jsstring" where
  "String_text nts v = (case String_js nts v of Inr t \<Rightarrow> t | Inl e \<Rightarrow> [])"

text \<open>
  An observation as the upstream service sends it: an object (any value but \<open>null\<close> and
  \<open>undefined\<close> will do) whose fields of the schema are numbers, strings or booleans, or
  are \<open>null\<close> or missing.
\<close>

fun primitive :: "'n jsval \<Rightarrow> bool" where
  "primitive (JArr xs) = False"
| "primitive (JObj ps) = False"
| "primitive _ = True"

definition plain_observation :: "'n jsval \<Rightarrow> bool" where
  "plain_observation obs \<longleftrightarrow>
     \<not> nullish obs \<and> list_all (\<lambda>k. primitive (field_value obs k)) schema_keys"

section \<open>Examples\<close>

text \<open>
  An environment with two stations and two attempts for each, and no poll interval;
  the constants the start-up makes of it; a \<open>parseDuration\<close> that knows \<open>1m\<close> only; an
  observation with a humidity, a temperature and a pressure that is \<open>null\<close>, and the
  same with a pressure, and with a temperature that is an object with a property
  \<open>toString\<close>; a network where station A is never reached and station B answers. Numbers are written as their decimal text in the examples.
\<close>

definition example_env :: env where
  "example_env =
     [''SENSOR_NAME'' \<mapsto> str ''w'', ''API_KEY'' \<mapsto> str ''k'', ''STATION_ID'' \<mapsto> str ''A,B'',
      ''MQTT_HOST'' \<mapsto> str ''h'', ''MQTT_PORT'' \<mapsto> str ''1883'', ''RETRIES'' \<mapsto> str ''2'']"

definition example_parseDuration :: "jsstring \<Rightarrow> real option" where
  "example_parseDuration s = (if s = str ''1m'' then Some 60000 else None)"

definition example_config :: config where
  "example_config =
     \<lparr>SENSOR_NAME = str ''w'', API_KEY = str ''k'', stationIds = [str ''A'', str ''B''],
      retries = Some 2, EXEC_EVERY = str ''1m'',
      broker = \<lparr>host = str ''h'', port = Some 1883, protocol = str ''mqtt'',
                clientId = str ''mqtt-weather-sensor'', username = None, password = None\<rparr>\<rparr>"

definition example_obs :: "string jsval" where
  "example_obs =
     JObj [(str ''humidity'', JNum ''55''),
           (str ''metric'', JObj [(str ''temp'', JNum ''18.2''), (str ''pressure'', JNull)])]"


definition example_obs_unprintable :: "string jsval" where
  "example_obs_unprintable =
     JObj [(str ''humidity'', JNum ''55''),
           (str ''metric'', JObj [(str ''temp'', JObj [(str ''toString'', JNum ''1'')])])]"

definition example_net :: "string network" where
  "example_net n s = (if s = str ''B'' then Observations example_obs else Rejected)"

definition example_messages :: "message list" where
  "example_messages = snd (publishToMqtt (str ''w'') str example_obs)"

section \<open>The loops of a cycle\<close>

lemma fetch_calls_simps [simp]:
  "fetch_calls [] = []"
  "fetch_calls (Fetch s # es) = s # fetch_calls es"
  "fetch_calls (Delay d # es) = fetch_calls es"
  "fetch_calls (Publish m # es) = fetch_calls es"
  "fetch_calls (Connect opts # es) = fetch_calls es"
  "fetch_calls (es @ es') = fetch_calls es @ fetch_calls es'"
  "fetch_calls (map Publish ms) = []"
  by (induction ms) (simp_all add: fetch_calls_def)

lemma publishes_simps [simp]:
  "publishes [] = []"
  "publishes (Fetch s # es) = publishes es"
  "publishes (Delay d # es) = publishes es"
  "publishes (Publish m # es) = m # publishes es"
  "publishes (Connect opts # es) = publishes es"
  "publishes (es @ es') = publishes es @ publishes es'"
  "publishes (map Publish ms) = ms"
  by (induction ms) (simp_all add: publishes_def)

lemma while_attempts_attempts:
  "while_attempts sensor_name nts r net s a n =
     (case attempts sensor_name nts net (replicate (budget r - a) s) n of
        (done, es) \<Rightarrow> (done, es, n + length (fetch_calls es)))"
proof (induction sensor_name nts r net s a n rule: while_attempts.induct)
  case (1 sensor_name nts r net s a n)
  show ?case
  proof (cases "attempt_lt a r")
    case False
    then have "budget r - a = 0"
      by (auto simp: attempt_lt_def budget_def split: option.splits)
    with False show ?thesis
      by (subst while_attempts.simps) simp
  next
    case True
    then have b: "budget r - a = Suc (budget r - Suc a)"
      by (auto simp: attempt_lt_def budget_def split: option.splits)
    show ?thesis
    proof (cases "net n s")
      case (Observations obs)
      show ?thesis
      proof (cases "publishToMqtt sensor_name nts obs")
        case (Pair c ms)
        show ?thesis
        proof (cases c)
          case Normal
          with True Observations Pair b show ?thesis
            by (subst while_attempts.simps) simp
        next
          case (Thrown e)
          with True Observations Pair b "1.IH" show ?thesis
            by (subst while_attempts.simps) (simp split: prod.splits)
        qed
      qed
    next
      case Rejected
      with True b "1.IH" show ?thesis
        by (subst while_attempts.simps) (simp split: prod.splits)
    next
      case NoObservations
      with True b "1.IH" show ?thesis
        by (subst while_attempts.simps) (simp split: prod.splits)
    qed
  qed
qed

lemma attempts_append:
  "attempts sensor_name nts net (P @ Q) n =
     (case attempts sensor_name nts net P n of
        (True, es) \<Rightarrow> (True, es)
      | (False, es) \<Rightarrow>
          (case attempts sensor_name nts net Q (n + length (fetch_calls es)) of
             (done, es') \<Rightarrow> (done, es @ es')))"
proof (induction P arbitrary: n)
  case Nil
  show ?case by (simp split: prod.splits)
next
  case (Cons s P)
  show ?case
    by (simp add: Cons.IH split: fetch_result.splits prod.splits completion.splits bool.splits)
qed

lemma for_stations_attempts:
  "for_stations sensor_name nts r net ss n =
     (case attempts sensor_name nts net (concat (map (replicate (budget r)) ss)) n of
        (True, es) \<Rightarrow> (ReturnedTrue, es)
      | (False, es) \<Rightarrow> (ProcessExit 7, es))"
proof (induction ss arbitrary: n)
  case Nil
  show ?case by simp
next
  case (Cons s ss)
  show ?case
    by (simp add: while_attempts_attempts attempts_append Cons.IH split: prod.splits bool.splits)
qed

lemma fetchAndPublish_attempts:
  "fetchAndPublish cfg nts net =
     (case attempts (SENSOR_NAME cfg) nts net (plan cfg) 0 of
        (True, es) \<Rightarrow> (ReturnedTrue, es)
      | (False, es) \<Rightarrow> (ProcessExit 7, es))"
  by (simp add: fetchAndPublish_def plan_def for_stations_attempts)


lemma attempts_all_fail:
  assumes "\<forall>i<length P. \<not> is_observations (net (n + i) (P ! i))"
  shows "attempts sensor_name nts net P n = (False, concat (map (\<lambda>s. [Fetch s, Delay 2000]) P))"
  using assms
proof (induction P arbitrary: n)
  case Nil
  show ?case by simp
next
  case (Cons s P)
  from Cons.prems have head: "\<not> is_observations (net n s)"
    by force
  from Cons.prems have "\<forall>i<length P. \<not> is_observations (net (Suc n + i) (P ! i))"
    by force
  then have "attempts sensor_name nts net P (Suc n) = (False, concat (map (\<lambda>s. [Fetch s, Delay 2000]) P))"
    by (rule Cons.IH)
  with head show ?case
    by (cases "net n s") simp_all
qed

lemma map_upt_Suc_shift: "map f [0..<Suc m] = f 0 # map (\<lambda>i. f (Suc i)) [0..<m]"
proof -
  have "[0..<Suc m] = 0 # map Suc [0..<m]"
    by (simp only: map_Suc_upt upt_conv_Cons [of 0 "Suc m"] zero_less_Suc if_True)
  then show ?thesis
    by (simp only: list.map map_map comp_def)
qed

lemma attempts_step:
  assumes "\<not> succeeds sensor_name nts (net n s)"
    and "attempts sensor_name nts net P (Suc n) = (d, es)"
  shows "attempts sensor_name nts net (s # P) n =
           (d, Fetch s # map Publish (reply_messages sensor_name nts (net n s)) @ Delay 2000 # es)"
proof (cases "net n s")
  case (Observations obs)
  obtain c ms where r: "publishToMqtt sensor_name nts obs = (c, ms)"
    by (cases "publishToMqtt sensor_name nts obs")
  with assms(1) Observations obtain e where "c = Thrown e"
    by (cases c) (simp_all add: succeeds_def)
  with r Observations assms(2) show ?thesis
    by (simp add: reply_messages_def)
next
  case Rejected
  with assms(2) show ?thesis
    by (simp add: reply_messages_def)
next
  case NoObservations
  with assms(2) show ?thesis
    by (simp add: reply_messages_def)
qed

lemma attempts_props:
  "case attempts sensor_name nts net P n of
     (done, es) \<Rightarrow>
       prefix (fetch_calls es) P \<and>
       (\<forall>i. Suc i < length (fetch_calls es) \<longrightarrow> \<not> succeeds sensor_name nts (net (n + i) (P ! i))) \<and>
       publishes es =
         concat (map (\<lambda>i. reply_messages sensor_name nts (net (n + i) (P ! i)))
                   [0..<length (fetch_calls es)]) \<and>
       (if done
        then fetch_calls es \<noteq> [] \<and>
             succeeds sensor_name nts
               (net (n + (length (fetch_calls es) - 1)) (P ! (length (fetch_calls es) - 1)))
        else fetch_calls es = P \<and>
             (\<forall>i<length P. \<not> succeeds sensor_name nts (net (n + i) (P ! i))))"
proof (induction P arbitrary: n)
  case Nil
  show ?case by simp
next
  case (Cons s P)
  show ?case
  proof (cases "succeeds sensor_name nts (net n s)")
    case True
    then obtain obs where obs: "net n s = Observations obs"
      by (cases "net n s") (simp_all add: succeeds_def)
    with True obtain ms where "publishToMqtt sensor_name nts obs = (Normal, ms)"
      by (cases "publishToMqtt sensor_name nts obs") (simp add: succeeds_def)
    with obs True show ?thesis
      by (simp add: reply_messages_def)
  next
    case False
    obtain d es where rest: "attempts sensor_name nts net P (Suc n) = (d, es)"
      by (cases "attempts sensor_name nts net P (Suc n)")
    from attempts_step [OF False rest]
    have here: "attempts sensor_name nts net (s # P) n =
        (d, Fetch s # map Publish (reply_messages sensor_name nts (net n s)) @ Delay 2000 # es)" .
    from Cons.IH [of "Suc n"] rest
    have p: "prefix (fetch_calls es) P"
      and q: "\<forall>i. Suc i < length (fetch_calls es) \<longrightarrow>
                \<not> succeeds sensor_name nts (net (Suc n + i) (P ! i))"
      and m: "publishes es =
         concat (map (\<lambda>i. reply_messages sensor_name nts (net (Suc n + i) (P ! i)))
                   [0..<length (fetch_calls es)])"
      and r: "if d
        then fetch_calls es \<noteq> [] \<and>
             succeeds sensor_name nts
               (net (Suc n + (length (fetch_calls es) - 1)) (P ! (length (fetch_calls es) - 1)))
        else fetch_calls es = P \<and>
             (\<forall>i<length P. \<not> succeeds sensor_name nts (net (Suc n + i) (P ! i)))"
      by (simp_all split: if_splits)
    have q': "\<forall>i. Suc i < Suc (length (fetch_calls es)) \<longrightarrow>
        \<not> succeeds sensor_name nts (net (n + i) ((s # P) ! i))"
    proof (intro allI impI)
      fix i assume "Suc i < Suc (length (fetch_calls es))"
      with q False show "\<not> succeeds sensor_name nts (net (n + i) ((s # P) ! i))"
        by (cases i) simp_all
    qed
    have m': "reply_messages sensor_name nts (net n s) @ publishes es =
        concat (map (\<lambda>i. reply_messages sensor_name nts (net (n + i) ((s # P) ! i)))
                  [0..<Suc (length (fetch_calls es))])"
      by (simp only: map_upt_Suc_shift m) simp
    show ?thesis
    proof (cases d)
      case True
      with r have ne: "fetch_calls es \<noteq> []" and
        ok: "succeeds sensor_name nts
               (net (Suc n + (length (fetch_calls es) - 1)) (P ! (length (fetch_calls es) - 1)))"
        by simp_all
      from ne have "length (fetch_calls es) = Suc (length (fetch_calls es) - 1)"
        by (cases "fetch_calls es") simp_all
      with ok have "succeeds sensor_name nts
               (net (n + length (fetch_calls es)) ((s # P) ! length (fetch_calls es)))"
        by (metis add_Suc_shift nth_Cons_Suc)
      with True here p q' m' show ?thesis
        by simp
    next
      case False
      with r have all: "fetch_calls es = P"
        "\<forall>i<length P. \<not> succeeds sensor_name nts (net (Suc n + i) (P ! i))"
        by simp_all
      have "\<forall>i<length (s # P). \<not> succeeds sensor_name nts (net (n + i) ((s # P) ! i))"
      proof (intro allI impI)
        fix i assume "i < length (s # P)"
        with all(2) \<open>\<not> succeeds sensor_name nts (net n s)\<close>
        show "\<not> succeeds sensor_name nts (net (n + i) ((s # P) ! i))"
          by (cases i) simp_all
      qed
      with False here p q' m' all(1) show ?thesis
        by simp
    qed
  qed
qed

lemma count_list_take_le: "count_list (take k xs) x \<le> count_list xs x"
proof -
  have "count_list xs x = count_list (take k xs @ drop k xs) x" by simp
  also have "\<dots> = count_list (take k xs) x + count_list (drop k xs) x"
    by (simp only: count_list_append)
  finally show ?thesis by simp
qed

lemma count_list_replicate: "count_list (replicate b y) x = (if x = y then b else 0)"
  by (induction b) auto

lemma count_list_concat_replicate:
  "count_list (concat (map (replicate b) ss)) x = b * count_list ss x"
  by (induction ss) (simp_all add: count_list_append count_list_replicate)

lemma example_sensors:
  "filter (\<lambda>s. \<not> nullish (val s)) (sensors example_obs) =
     [\<lparr>key = str ''humidity'', name = str ''Humidity'', device_class = Some (str ''humidity''),
       unit = Some (str ''%''), val = JNum ''55''\<rparr>,
      \<lparr>key = str ''temp'', name = str ''Temperature'', device_class = Some (str ''temperature''),
       unit = Some (0xB0 # str ''C''), val = JNum ''18.2''\<rparr>]"
  by (simp add: sensors_def top_sensors_def metricMap_def example_obs_def str_def)

lemma publish_sensors_filter:
  "publish_sensors sensor_name nts ss =
     publish_sensors sensor_name nts (filter (\<lambda>s. \<not> nullish (val s)) ss)"
  by (induction ss) (simp_all split: sum.splits prod.splits)

lemma example_publish:
  "fst (publishToMqtt (str ''w'') str example_obs) = Normal"
proof -
  have "\<not> nullish example_obs" by (simp add: example_obs_def)
  then show ?thesis
    by (simp add: publishToMqtt_def publish_sensors_filter [of _ _ "sensors example_obs"] example_sensors)
qed

lemma example_publish': "publishToMqtt (str ''w'') str example_obs = (Normal, example_messages)"
  using example_publish by (simp add: example_messages_def prod_eq_iff)

lemma example_cycle:
  "fetchAndPublish example_config str example_net =
     (ReturnedTrue,
      [Fetch (str ''A''), Delay 2000, Fetch (str ''A''), Delay 2000, Fetch (str ''B'')] @
      map Publish example_messages)"
proof -
  have AB: "str ''A'' \<noteq> str ''B''" by (simp add: str_def)
  show ?thesis
    by (simp add: fetchAndPublish_def example_config_def while_attempts.simps attempt_lt_def
        example_net_def AB example_publish')
qed

section \<open>The order of the attempts\<close>

text \<open>
  Claim C1, as the code has it. The calls of \<open>fetchWeather\<close> in a cycle are an initial
  part of the plan: the stations in the configured order, each repeated as often as the
  retry count allows, so that a station is called at most that often and the next one
  only after it. No attempt before the last one succeeded, and what the cycle has
  published is what its attempts published, in their order. When the cycle returns,
  its last attempt succeeded and nothing was called after it; otherwise every planned
  call was made, none succeeded, and the process exits with code 7. An attempt
  succeeds when its reply carries an observation and \<open>publishToMqtt\<close> returns for it: a
  reply that carries an observation for which \<open>publishToMqtt\<close> throws is caught like a
  rejected request, and the next attempt follows.
\<close>

theorem fetchAndPublish_stations_in_order:
  "(let (result, es) = fetchAndPublish cfg nts net; calls = fetch_calls es in
      prefix calls (plan cfg) \<and>
      (\<forall>s. count_list calls s \<le> budget (retries cfg) * count_list (stationIds cfg) s) \<and>
      (\<forall>i. Suc i < length calls \<longrightarrow>
           \<not> succeeds (SENSOR_NAME cfg) nts (net i (plan cfg ! i))) \<and>
      publishes es =
        concat (map (\<lambda>i. reply_messages (SENSOR_NAME cfg) nts (net i (plan cfg ! i)))
                  [0..<length calls]) \<and>
      (if result = ReturnedTrue
       then calls \<noteq> [] \<and>
            succeeds (SENSOR_NAME cfg) nts (net (length calls - 1) (last calls))
       else result = ProcessExit 7 \<and> calls = plan cfg \<and>
            (\<forall>i<length (plan cfg). \<not> succeeds (SENSOR_NAME cfg) nts (net i (plan cfg ! i)))))"
proof -
  obtain d es where a: "attempts (SENSOR_NAME cfg) nts net (plan cfg) 0 = (d, es)"
    by (cases "attempts (SENSOR_NAME cfg) nts net (plan cfg) 0")
  from attempts_props [where sensor_name = "SENSOR_NAME cfg" and nts = nts and net = net
      and P = "plan cfg" and n = 0] a
  have p: "prefix (fetch_calls es) (plan cfg)"
    and q: "\<forall>i. Suc i < length (fetch_calls es) \<longrightarrow>
              \<not> succeeds (SENSOR_NAME cfg) nts (net i (plan cfg ! i))"
    and m: "publishes es =
        concat (map (\<lambda>i. reply_messages (SENSOR_NAME cfg) nts (net i (plan cfg ! i)))
                  [0..<length (fetch_calls es)])"
    and r: "if d
              then fetch_calls es \<noteq> [] \<and>
                   succeeds (SENSOR_NAME cfg) nts
                     (net (length (fetch_calls es) - 1) (plan cfg ! (length (fetch_calls es) - 1)))
              else fetch_calls es = plan cfg \<and>
                   (\<forall>i<length (plan cfg). \<not> succeeds (SENSOR_NAME cfg) nts (net i (plan cfg ! i)))"
    by (simp_all split: if_splits)
  from p obtain k where k: "fetch_calls es = take k (plan cfg)"
    by (metis prefix_def append_eq_conv_conj)
  have c: "\<forall>s. count_list (fetch_calls es) s \<le> budget (retries cfg) * count_list (stationIds cfg) s"
    unfolding k using count_list_take_le [of k "plan cfg"]
    by (simp add: plan_def count_list_concat_replicate)
  have l: "fetch_calls es \<noteq> [] \<Longrightarrow> plan cfg ! (length (fetch_calls es) - 1) = last (fetch_calls es)"
  proof -
    assume ne: "fetch_calls es \<noteq> []"
    then have "last (fetch_calls es) = fetch_calls es ! (length (fetch_calls es) - 1)"
      by (rule last_conv_nth)
    also from p ne have "\<dots> = plan cfg ! (length (fetch_calls es) - 1)"
      by (auto simp: prefix_def nth_append)
    finally show ?thesis by simp
  qed
  show ?thesis
  proof (cases d)
    case True
    with a p q m r c l show ?thesis
      by (simp add: fetchAndPublish_attempts)
  next
    case False
    with a p q m r c show ?thesis
      by (simp add: fetchAndPublish_attempts)
  qed
qed

theorem fetchAndPublish_stations_in_order_witness:
  "(let (result, es) = fetchAndPublish example_config str example_net in
      result = ReturnedTrue \<and> fetch_calls es = [str ''A'', str ''A'', str ''B''] \<and>
      publishes es = snd (publishToMqtt (str ''w'') str example_obs) \<and>
      succeeds (str ''w'') str (example_net 2 (str ''B'')))"
proof -
  have "succeeds (str ''w'') str (example_net 2 (str ''B''))"
    using example_publish by (simp add: succeeds_def example_net_def)
  with fetchAndPublish_stations_in_order [of example_config str example_net] show ?thesis
    by (simp add: example_cycle example_messages_def)
qed

text \<open>
  The claim as stated fails for a fetch that passes the test of the response and whose
  observation cannot be published. When the first response is a body with the
  observations \<open>[null]\<close>, \<open>publishToMqtt(null)\<close> throws inside the \<open>try\<close> block; the
  cycle does not return: it calls station A again, then station B twice, and the
  process exits with code 7.
\<close>

theorem null_observation_refetched_counterexample:
  "is_observations ((\<lambda>n s. if n = 0 then Observations JNull else Rejected :: string fetch_result) 0 (str ''A'')) \<and>
   fetchAndPublish example_config str (\<lambda>n s. if n = 0 then Observations JNull else Rejected) =
     (ProcessExit 7,
      [Fetch (str ''A''), Delay 2000, Fetch (str ''A''), Delay 2000,
       Fetch (str ''B''), Delay 2000, Fetch (str ''B''), Delay 2000])"
  by (simp add: fetchAndPublish_def example_config_def while_attempts.simps attempt_lt_def
      publishToMqtt_def)

section \<open>Exhausted stations\<close>

lemma startup_example: "startup example_env = Inr example_config"
  by (simp add: startup_def example_env_def example_config_def falsy_def isValidMqttTopic_def
      env_or_def str_def trim_def is_space_def parseInt_def is_digit_def digits_value_def)

lemma example_plan: "plan example_config = [str ''A'', str ''A'', str ''B'', str ''B'']"
  by (simp add: plan_def example_config_def budget_def numeral_2_eq_2)

lemma rejected_cycle:
  "fetchAndPublish example_config nts (\<lambda>n s. Rejected) =
     (ProcessExit 7,
      [Fetch (str ''A''), Delay 2000, Fetch (str ''A''), Delay 2000,
       Fetch (str ''B''), Delay 2000, Fetch (str ''B''), Delay 2000])"
  by (simp add: fetchAndPublish_def example_config_def while_attempts.simps attempt_lt_def)

text \<open>
  Claim C4. When no call of a cycle delivers an observation (every request is rejected
  or its response carries none), the cycle makes every planned call, each followed by
  the wait, publishes nothing, and ends in \<open>process.exit(7)\<close>.
\<close>

theorem all_stations_exhausted_exit_7:
  assumes "\<forall>i<length (plan cfg). \<not> is_observations (net i (plan cfg ! i))"
  shows "fetchAndPublish cfg nts net =
           (ProcessExit 7, concat (map (\<lambda>s. [Fetch s, Delay 2000]) (plan cfg))) \<and>
         publishes (snd (fetchAndPublish cfg nts net)) = []"
proof -
  from assms have "\<forall>i<length (plan cfg). \<not> is_observations (net (0 + i) (plan cfg ! i))"
    by simp
  then have a: "attempts (SENSOR_NAME cfg) nts net (plan cfg) 0 =
      (False, concat (map (\<lambda>s. [Fetch s, Delay 2000]) (plan cfg)))"
    by (rule attempts_all_fail)
  have "publishes (concat (map (\<lambda>s. [Fetch s, Delay 2000]) P)) = []" for P
    by (induction P) simp_all
  with a show ?thesis
    by (simp add: fetchAndPublish_attempts)
qed

theorem all_stations_exhausted_exit_7_witness:
  "fetchAndPublish example_config str (\<lambda>n s. Rejected :: string fetch_result) =
     (ProcessExit 7,
      [Fetch (str ''A''), Delay 2000, Fetch (str ''A''), Delay 2000,
       Fetch (str ''B''), Delay 2000, Fetch (str ''B''), Delay 2000]) \<and>
   publishes (snd (fetchAndPublish example_config str (\<lambda>n s. Rejected :: string fetch_result))) = []"
proof -
  have h: "\<forall>i<length (plan example_config).
             \<not> is_observations ((\<lambda>n s. Rejected :: string fetch_result) i (plan example_config ! i))"
    by simp
  from all_stations_exhausted_exit_7 [of example_config "\<lambda>n s. Rejected" str, OF h]
  show ?thesis
    by (simp add: rejected_cycle example_plan)
qed

text \<open>
  Claim C10. When the text of \<open>RETRIES\<close> parses to NaN, to zero or to a negative number,
  and the rest of the configuration is accepted (the start-up checks pass and the poll
  interval is empty or valid), the process opens the broker connection and, on
  connect, exits with code 7: no call of \<open>fetchWeather\<close> is made for any station, and no
  start-up check has rejected the retry count.
\<close>

theorem no_retries_exit_7_without_fetch:
  assumes "e ''RETRIES'' = Some s"
    and "case parseInt s of None \<Rightarrow> True | Some k \<Rightarrow> k \<le> 0"
    and "startup e = Inr cfg"
    and "EXEC_EVERY cfg = [] \<or> \<not> interval_invalid (parseDuration (EXEC_EVERY cfg))"
  shows "main_connected parseDuration nts e net = (Exited 7, [Connect (broker cfg)])"
proof -
  from assms(1,3) have "retries cfg = parseInt s"
    by (auto simp: startup_def split: if_splits)
  with assms(2) have "budget (retries cfg) = 0"
    by (simp add: budget_def split: option.splits)
  then have "plan cfg = []"
    by (simp add: plan_def)
  then have "fetchAndPublish cfg nts net = (ProcessExit 7, [])"
    by (simp add: fetchAndPublish_attempts)
  with assms(3,4) show ?thesis
    by (auto simp: main_connected_def on_connect_def Let_def)
qed

theorem no_retries_exit_7_without_fetch_witness:
  "main_connected example_parseDuration str (example_env(''RETRIES'' \<mapsto> str ''abc'')) example_net =
     (Exited 7, [Connect (broker example_config)])"
proof -
  have p: "parseInt (str ''abc'') = None"
    by (simp add: parseInt_def str_def is_space_def is_digit_def)
  have s: "startup (example_env(''RETRIES'' \<mapsto> str ''abc'')) = Inr (example_config\<lparr>retries := None\<rparr>)"
    by (simp add: startup_def example_env_def example_config_def falsy_def isValidMqttTopic_def
        env_or_def str_def trim_def is_space_def parseInt_def is_digit_def digits_value_def)
  have i: "\<not> interval_invalid (example_parseDuration (str ''1m''))"
    by (simp add: interval_invalid_def example_parseDuration_def)
  from no_retries_exit_7_without_fetch [of "example_env(''RETRIES'' \<mapsto> str ''abc'')" "str ''abc''"
      "example_config\<lparr>retries := None\<rparr>" example_parseDuration str example_net]
    p s i
  show ?thesis
    by (simp add: example_config_def)
qed

lemmas startup_eval =
  startup_def example_env_def example_config_def falsy_def isValidMqttTopic_def
  env_or_def str_def trim_def is_space_def parseInt_def is_digit_def digits_value_def

lemma fetchAndPublish_exit_code:
  "fetchAndPublish cfg nts net = (ProcessExit c, es) \<Longrightarrow> c = 7"
  by (auto simp: fetchAndPublish_attempts split: prod.splits bool.splits)

section \<open>Start-up checks\<close>

text \<open>
  Claim C6, as the code has it. A sensor-set name that is empty is rejected by the test
  for missing variables, with exit code 2; one that is not empty and contains \<open>+\<close>, \<open>#\<close>
  or NUL is rejected with exit code 4 when the other required variables are there, and
  with exit code 2 when one of them is missing or empty. In each case the process
  has exited before the broker connection is opened and before any fetch: it has no
  effect at all.
\<close>

theorem reserved_name_rejected_before_connect:
  assumes "e ''SENSOR_NAME'' = Some n"
    and "n = [] \<or> list_ex (\<lambda>c. c = 0x2B \<or> c = 0x23 \<or> c = 0x00) n"
  shows "main_connected parseDuration nts e net =
           (Exited (if n = [] \<or> falsy (e ''API_KEY'') \<or> falsy (e ''STATION_ID'') \<or>
                       falsy (e ''MQTT_HOST'') \<or> falsy (e ''MQTT_PORT'') then 2 else 4), [])"
  using assms by (auto simp: main_connected_def startup_def falsy_def isValidMqttTopic_def)

theorem reserved_name_rejected_before_connect_witness:
  "main_connected example_parseDuration str (example_env(''SENSOR_NAME'' \<mapsto> str ''a+b'')) example_net =
     (Exited 4, [])"
  using reserved_name_rejected_before_connect
    [of "example_env(''SENSOR_NAME'' \<mapsto> str ''a+b'')" "str ''a+b''" example_parseDuration str example_net]
  by (simp add: example_env_def falsy_def str_def)

text \<open>
  The claim as stated fails for the empty name: with every other variable set, the
  exit code is 2, not 4.
\<close>

theorem empty_name_exit_2_counterexample:
  "main_connected example_parseDuration str (example_env(''SENSOR_NAME'' \<mapsto> [])) example_net =
     (Exited 2, [])"
  by (simp add: main_connected_def startup_def example_env_def falsy_def)

section \<open>The poll interval\<close>

text \<open>
  Claim C7, as the code has it. With the start-up checks passed and the broker
  connected: when \<open>EXEC_EVERY\<close> is not set, the default \<open>1m\<close> is parsed, and the process
  exits with code 3 or starts a cycle with the timer armed; one-shot mode is taken when
  \<open>EXEC_EVERY\<close> is set to the empty string: one cycle runs, no timer is armed, and the
  process exits with code 7 when that cycle fails.
\<close>

theorem poll_interval_modes:
  assumes "startup e = Inr cfg"
  shows "(e ''EXEC_EVERY'' = None \<longrightarrow>
            main_connected parseDuration nts e net =
              (if interval_invalid (parseDuration (str ''1m''))
               then (Exited 3, [Connect (broker cfg)])
               else (case fetchAndPublish cfg nts net of
                       (ReturnedTrue, es) \<Rightarrow>
                         (Running (parseDuration (str ''1m'')), Connect (broker cfg) # es)
                     | (ProcessExit c, es) \<Rightarrow> (Exited 7, Connect (broker cfg) # es)))) \<and>
         (e ''EXEC_EVERY'' = Some [] \<longrightarrow>
            main_connected parseDuration nts e net =
              (case fetchAndPublish cfg nts net of
                 (ReturnedTrue, es) \<Rightarrow> (Running None, Connect (broker cfg) # es)
               | (ProcessExit c, es) \<Rightarrow> (Exited 7, Connect (broker cfg) # es)))"
proof -
  have c: "fetchAndPublish cfg nts net = (ProcessExit c, es) \<Longrightarrow> c = 7" for c es
    by (rule fetchAndPublish_exit_code)
  have "e ''EXEC_EVERY'' = None \<Longrightarrow> EXEC_EVERY cfg = str ''1m''"
    using assms by (auto simp: startup_def env_or_def split: if_splits)
  moreover have "str ''1m'' \<noteq> []"
    by (simp add: str_def)
  moreover have "e ''EXEC_EVERY'' = Some [] \<Longrightarrow> EXEC_EVERY cfg = []"
    using assms by (auto simp: startup_def env_or_def split: if_splits)
  ultimately show ?thesis
    using assms c
    by (auto simp: main_connected_def on_connect_def Let_def
        split: prod.splits cycle_result.splits)
qed

theorem poll_interval_modes_witness:
  "main_connected example_parseDuration str (example_env(''EXEC_EVERY'' \<mapsto> [])) example_net =
     (Running None,
      Connect (broker example_config) #
      [Fetch (str ''A''), Delay 2000, Fetch (str ''A''), Delay 2000, Fetch (str ''B'')] @
      map Publish example_messages) \<and>
   main_connected example_parseDuration str example_env (\<lambda>n s. Rejected :: string fetch_result) =
     (Exited 7,
      [Connect (broker example_config),
       Fetch (str ''A''), Delay 2000, Fetch (str ''A''), Delay 2000,
       Fetch (str ''B''), Delay 2000, Fetch (str ''B''), Delay 2000])"
proof -
  have s: "startup (example_env(''EXEC_EVERY'' \<mapsto> [])) = Inr (example_config\<lparr>EXEC_EVERY := []\<rparr>)"
    by (simp add: startup_eval)
  have f: "fetchAndPublish (example_config\<lparr>EXEC_EVERY := []\<rparr>) str example_net =
             fetchAndPublish example_config str example_net"
    by (simp add: fetchAndPublish_def)
  have absent: "example_env ''EXEC_EVERY'' = None"
    by (simp add: example_env_def)
  have valid: "\<not> interval_invalid (example_parseDuration (str ''1m''))"
    by (simp add: interval_invalid_def example_parseDuration_def)
  from poll_interval_modes [OF s, of example_parseDuration str example_net]
    poll_interval_modes [OF startup_example, of example_parseDuration str "\<lambda>n s. Rejected"]
    absent valid
  show ?thesis
    by (simp add: f example_cycle rejected_cycle)
qed

text \<open>
  The claim as stated fails when the variable is absent: the default applies and the
  timer is armed, here with the 60000 milliseconds that \<open>1m\<close> stands for.
\<close>

theorem absent_interval_arms_timer_counterexample:
  "main_connected example_parseDuration str example_env example_net =
     (Running (Some 60000),
      Connect (broker example_config) #
      [Fetch (str ''A''), Delay 2000, Fetch (str ''A''), Delay 2000, Fetch (str ''B'')] @
      map Publish example_messages)"
proof -
  have "EXEC_EVERY example_config = str ''1m''" "str ''1m'' \<noteq> []"
    by (simp_all add: example_config_def str_def)
  then show ?thesis
    by (simp add: main_connected_def startup_example on_connect_def example_cycle
        example_parseDuration_def interval_invalid_def)
qed

text \<open>
  Claim C9, as the code has it. With the start-up checks passed and the broker
  connected, a poll interval that is not the empty string and that \<open>parseDuration\<close>
  rejects, or gives as less than 1, makes the process exit with code 3 in the connect
  handler: the broker connection is its only effect, and no fetch is made.
\<close>

theorem invalid_interval_exit_3_before_fetch:
  assumes "e ''EXEC_EVERY'' = Some s"
    and "s \<noteq> []"
    and "interval_invalid (parseDuration s)"
    and "startup e = Inr cfg"
  shows "main_connected parseDuration nts e net = (Exited 3, [Connect (broker cfg)])"
proof -
  from assms(1,4) have "EXEC_EVERY cfg = s"
    by (auto simp: startup_def env_or_def split: if_splits)
  with assms(2,3,4) show ?thesis
    by (simp add: main_connected_def on_connect_def)
qed

theorem invalid_interval_exit_3_before_fetch_witness:
  "main_connected example_parseDuration str (example_env(''EXEC_EVERY'' \<mapsto> str ''soon'')) example_net =
     (Exited 3, [Connect (broker example_config)])"
proof -
  have s: "startup (example_env(''EXEC_EVERY'' \<mapsto> str ''soon'')) =
             Inr (example_config\<lparr>EXEC_EVERY := str ''soon''\<rparr>)"
    by (simp add: startup_eval)
  have n: "str ''soon'' \<noteq> []" "str ''soon'' \<noteq> str ''1m''"
    by (simp_all add: str_def)
  then have i: "interval_invalid (example_parseDuration (str ''soon''))"
    by (simp add: interval_invalid_def example_parseDuration_def)
  from invalid_interval_exit_3_before_fetch
    [of "example_env(''EXEC_EVERY'' \<mapsto> str ''soon'')" "str ''soon''" example_parseDuration
      "example_config\<lparr>EXEC_EVERY := str ''soon''\<rparr>" str example_net] n i s
  show ?thesis
    by (simp add: example_config_def)
qed

text \<open>
  The claim as stated fails for the empty string: with a \<open>parseDuration\<close> that rejects
  it (here one that rejects every string but \<open>1m\<close>), the process does not exit with
  code 3; it runs one cycle and fetches.
\<close>

theorem empty_interval_fetches_counterexample:
  "interval_invalid (example_parseDuration []) \<and>
   main_connected example_parseDuration str (example_env(''EXEC_EVERY'' \<mapsto> [])) (\<lambda>n s. Rejected :: string fetch_result) =
     (Exited 7,
      [Connect (broker example_config),
       Fetch (str ''A''), Delay 2000, Fetch (str ''A''), Delay 2000,
       Fetch (str ''B''), Delay 2000, Fetch (str ''B''), Delay 2000])"
proof -
  have s: "startup (example_env(''EXEC_EVERY'' \<mapsto> [])) = Inr (example_config\<lparr>EXEC_EVERY := []\<rparr>)"
    by (simp add: startup_eval)
  have f: "fetchAndPublish (example_config\<lparr>EXEC_EVERY := []\<rparr>) nts net =
             fetchAndPublish example_config nts net" for nts :: "string \<Rightarrow> jsstring" and net
    by (simp add: fetchAndPublish_def)
  have i: "interval_invalid (example_parseDuration [])"
    by (simp add: interval_invalid_def example_parseDuration_def str_def)
  show ?thesis
    by (simp add: i main_connected_def s on_connect_def f rejected_cycle)
qed

section \<open>The sensors of an observation\<close>

lemma get_not_object: "\<not> is_object m \<Longrightarrow> get m k = JUndefined"
  by (cases m) simp_all

lemma push_metrics_filter:
  "push_metrics m tbl = filter (\<lambda>s. \<not> nullish (val s)) (map (sensor_of (get m)) tbl)"
  by (induction m tbl rule: push_metrics.induct) (simp_all add: sensor_of_def)

lemma metric_part:
  "(if is_object m then push_metrics m tbl else []) =
     filter (\<lambda>s. \<not> nullish (val s)) (map (sensor_of (get m)) tbl)"
  by (induction tbl) (auto simp: push_metrics_filter get_not_object sensor_of_def)

lemma schema_split:
  "schema = take 4 schema @ metricMap"
  by (simp add: schema_def metricMap_def)

lemma top_sensors_schema:
  "top_sensors obs = map (sensor_of (field_value obs)) (take 4 schema)"
  by (simp add: top_sensors_def schema_def sensor_of_def field_value_def top_keys_def)

lemma metric_keys_not_top: "k \<in> set metric_keys \<Longrightarrow> k \<notin> set top_keys"
proof -
  have "set metric_keys \<inter> set top_keys = {}"
    by (simp add: metric_keys_def top_keys_def str_def)
  then show "k \<in> set metric_keys \<Longrightarrow> k \<notin> set top_keys"
    by blast
qed

lemma metricMap_keys: "map fst metricMap = metric_keys"
  by (simp add: metricMap_def metric_keys_def)

lemma schema_keys_schema: "map fst schema = schema_keys"
  by (simp add: schema_def schema_keys_def top_keys_def metric_keys_def)

lemma metric_sensor_of:
  "map (sensor_of (get (get obs (str ''metric'')))) metricMap =
     map (sensor_of (field_value obs)) metricMap"
proof (rule map_cong [OF refl])
  fix entry :: "jsstring \<times> jsstring \<times> jsstring option \<times> jsstring option"
  assume "entry \<in> set metricMap"
  then have "fst entry \<in> set (map fst metricMap)"
    by simp
  then have "fst entry \<notin> set top_keys"
    unfolding metricMap_keys by (rule metric_keys_not_top)
  then show "sensor_of (get (get obs (str ''metric''))) entry = sensor_of (field_value obs) entry"
    by (cases entry) (simp add: sensor_of_def field_value_def)
qed

lemma sensors_schema:
  "sensors obs =
     map (sensor_of (field_value obs)) (take 4 schema) @
     filter (\<lambda>s. \<not> nullish (val s)) (map (sensor_of (field_value obs)) metricMap)"
  by (simp only: sensors_def metric_part top_sensors_schema metric_sensor_of)

lemma published_sensors_schema:
  "published_sensors obs =
     filter (\<lambda>s. \<not> nullish (val s)) (map (sensor_of (field_value obs)) schema)"
  by (subst schema_split) (simp add: published_sensors_def sensors_schema)

lemma key_sensor_of [simp]: "key (sensor_of fv entry) = fst entry"
  "val (sensor_of fv entry) = fv (fst entry)"
  by (simp_all add: sensor_of_def split: prod.splits)

lemma filter_map_key:
  "map key (filter (\<lambda>s. \<not> nullish (val s)) (map (sensor_of fv) tbl)) =
     filter (\<lambda>k. \<not> nullish (fv k)) (map fst tbl)"
  by (induction tbl) simp_all

text \<open>
  Claim C5. The keys of the array \<open>sensors\<close> are the four top-level keys followed by
  the metric keys whose value is there, in the order of the schema; the keys of the
  sensors that are published are the keys of the schema whose value is there, in the
  order of the schema. Both sequences are functions of the observation alone.
\<close>

theorem sensors_in_schema_order:
  "map key (sensors obs) =
     filter (\<lambda>k. k \<in> set top_keys \<or> \<not> nullish (field_value obs k)) schema_keys \<and>
   map key (published_sensors obs) =
     filter (\<lambda>k. \<not> nullish (field_value obs k)) schema_keys \<and>
   subseq (map key (published_sensors obs)) schema_keys"
proof -
  have 1: "map key (published_sensors obs) =
     filter (\<lambda>k. \<not> nullish (field_value obs k)) schema_keys"
    by (simp add: published_sensors_schema filter_map_key schema_keys_schema)
  have "map key (map (sensor_of (field_value obs)) (take 4 schema)) = top_keys"
    by (simp add: schema_def top_keys_def)
  moreover have "filter (\<lambda>k. k \<in> set top_keys \<or> \<not> nullish (field_value obs k)) top_keys = top_keys"
    by simp
  moreover have "filter (\<lambda>k. k \<in> set top_keys \<or> \<not> nullish (field_value obs k)) metric_keys =
      filter (\<lambda>k. \<not> nullish (field_value obs k)) metric_keys"
    by (rule filter_cong) (auto dest: metric_keys_not_top)
  ultimately have 2: "map key (sensors obs) =
     filter (\<lambda>k. k \<in> set top_keys \<or> \<not> nullish (field_value obs k)) schema_keys"
    by (simp add: sensors_schema filter_map_key metricMap_keys schema_keys_def)
  from 1 2 show ?thesis
    by simp
qed


theorem sensors_in_schema_order_witness:
  "map key (sensors example_obs) =
     [str ''obsTimeUtc'', str ''solarRadiation'', str ''winddir'', str ''humidity'', str ''temp''] \<and>
   map key (published_sensors example_obs) = [str ''humidity'', str ''temp'']"
proof -
  have "map key (sensors example_obs) =
     [str ''obsTimeUtc'', str ''solarRadiation'', str ''winddir'', str ''humidity'', str ''temp'']"
    by (simp add: sensors_def top_sensors_def metricMap_def example_obs_def str_def)
  moreover have "map key (published_sensors example_obs) = [str ''humidity'', str ''temp'']"
    by (simp add: published_sensors_def example_sensors)
  ultimately show ?thesis
    using sensors_in_schema_order [of example_obs] by simp
qed

section \<open>The messages of an observation\<close>

lemma publish_sensors_general:
  "publish_sensors n nts ss =
     (case dropWhile (\<lambda>s. renders nts (val s)) (filter (\<lambda>s. \<not> nullish (val s)) ss) of
        [] \<Rightarrow> Normal
      | s # rest \<Rightarrow> Thrown TypeError,
      concat (map (\<lambda>s. [config_message n s, state_message n s (String_text nts (val s))])
                (takeWhile (\<lambda>s. renders nts (val s)) (filter (\<lambda>s. \<not> nullish (val s)) ss))) @
      (case dropWhile (\<lambda>s. renders nts (val s)) (filter (\<lambda>s. \<not> nullish (val s)) ss) of
         [] \<Rightarrow> []
       | s # rest \<Rightarrow> [config_message n s]))"
proof (induction ss)
  case Nil
  show ?case by simp
next
  case (Cons s ss)
  show ?case
  proof (cases "nullish (val s)")
    case True
    with Cons show ?thesis by simp
  next
    case False
    show ?thesis
    proof (cases "String_js nts (val s)")
      case (Inl e)
      then have "\<not> renders nts (val s)" and "e = TypeError"
        by (simp add: renders_def, cases e) simp
      with False Inl show ?thesis by simp
    next
      case (Inr v)
      then have "renders nts (val s)" and "String_text nts (val s) = v"
        by (simp_all add: renders_def String_text_def)
      with False Inr Cons show ?thesis
        by simp
    qed
  qed
qed

lemma schema_truthy:
  "\<forall>entry \<in> set schema.
     when_truthy (fst (snd (snd entry))) = fst (snd (snd entry)) \<and>
     when_truthy (snd (snd (snd entry))) = snd (snd (snd entry))"
  by (simp add: schema_def when_truthy_def str_def)

lemma published_sensors_truthy:
  assumes "s \<in> set (published_sensors obs)"
  shows "when_truthy (device_class s) = device_class s \<and> when_truthy (unit s) = unit s"
proof -
  from assms obtain entry where e: "entry \<in> set schema" "s = sensor_of (field_value obs) entry"
    by (auto simp: published_sensors_schema)
  with schema_truthy show ?thesis
    by (cases entry) (auto simp: sensor_of_def)
qed

text \<open>
  Claim C3, as the code has it. The sensors that have a value are published in their
  order. For each of them the config message is published first, retained, on the
  topic \<open>homeassistant/sensor/{name}/{key}/config\<close>, with the JSON text of the name, the
  state topic, the unique id \<open>{name}_{key}\<close>, the device block and the device class
  and unit the sensor has; then \<open>String\<close> is applied to the value and the state message
  is published, retained, on the topic \<open>homeassistant/sensor/{name}/{key}/state\<close>, with
  that text. So every sensor up to the first whose value \<open>String\<close> cannot render gets
  exactly these two messages; that sensor gets the config message only, and
  \<open>publishToMqtt\<close> ends there with the TypeError. For an observation that is \<open>null\<close> or
  \<open>undefined\<close> it throws before anything is published.
\<close>

theorem config_then_state_for_every_sensor:
  "publishToMqtt n nts obs =
     (if nullish obs then (Thrown TypeError, [])
      else
        (case dropWhile (\<lambda>s. renders nts (val s)) (published_sensors obs) of
           [] \<Rightarrow> Normal
         | s # rest \<Rightarrow> Thrown TypeError,
         concat (map (\<lambda>s. [config_message n s, state_message n s (String_text nts (val s))])
                   (takeWhile (\<lambda>s. renders nts (val s)) (published_sensors obs))) @
         (case dropWhile (\<lambda>s. renders nts (val s)) (published_sensors obs) of
            [] \<Rightarrow> []
          | s # rest \<Rightarrow> [config_message n s]))) \<and>
   (\<forall>s \<in> set (published_sensors obs).
      config_message n s =
        \<lparr>topic = str ''homeassistant/sensor/'' @ n @ str ''/'' @ key s @ str ''/config'',
         payload = JSON_stringify
           \<lparr>payload_name = str ''Weather '' @ n @ str '' '' @ name s,
            state_topic = str ''homeassistant/sensor/'' @ n @ str ''/'' @ key s @ str ''/state'',
            unique_id = n @ str ''_'' @ key s,
            payload_device =
              \<lparr>identifiers = [n],
               device_name = str ''Weather Station '' @ n,
               manufacturer = str ''Weather.com''\<rparr>,
            payload_device_class = device_class s,
            unit_of_measurement = unit s\<rparr>,
         retain = True\<rparr> \<and>
      (\<forall>v. state_message n s v =
        \<lparr>topic = str ''homeassistant/sensor/'' @ n @ str ''/'' @ key s @ str ''/state'',
         payload = v,
         retain = True\<rparr>) \<and>
      (renders nts (val s) \<longrightarrow> String_js nts (val s) = Inr (String_text nts (val s))))"
proof -
  have a: "publishToMqtt n nts obs =
     (if nullish obs then (Thrown TypeError, [])
      else
        (case dropWhile (\<lambda>s. renders nts (val s)) (published_sensors obs) of
           [] \<Rightarrow> Normal
         | s # rest \<Rightarrow> Thrown TypeError,
         concat (map (\<lambda>s. [config_message n s, state_message n s (String_text nts (val s))])
                   (takeWhile (\<lambda>s. renders nts (val s)) (published_sensors obs))) @
         (case dropWhile (\<lambda>s. renders nts (val s)) (published_sensors obs) of
            [] \<Rightarrow> []
          | s # rest \<Rightarrow> [config_message n s])))"
    by (simp only: publishToMqtt_def published_sensors_def publish_sensors_general)
  have b: "config_message n s =
        \<lparr>topic = str ''homeassistant/sensor/'' @ n @ str ''/'' @ key s @ str ''/config'',
         payload = JSON_stringify
           \<lparr>payload_name = str ''Weather '' @ n @ str '' '' @ name s,
            state_topic = str ''homeassistant/sensor/'' @ n @ str ''/'' @ key s @ str ''/state'',
            unique_id = n @ str ''_'' @ key s,
            payload_device =
              \<lparr>identifiers = [n],
               device_name = str ''Weather Station '' @ n,
               manufacturer = str ''Weather.com''\<rparr>,
            payload_device_class = device_class s,
            unit_of_measurement = unit s\<rparr>,
         retain = True\<rparr>"
    if "s \<in> set (published_sensors obs)" for s
  proof -
    from that have "when_truthy (device_class s) = device_class s \<and> when_truthy (unit s) = unit s"
      by (rule published_sensors_truthy)
    then show ?thesis
      by (simp add: config_message_def configPayload_of_def configTopic_def stateTopic_def
          base_def device_of_def)
  qed
  have c: "state_message n s v =
        \<lparr>topic = str ''homeassistant/sensor/'' @ n @ str ''/'' @ key s @ str ''/state'',
         payload = v,
         retain = True\<rparr>" for s :: "'a sensor" and v
    by (simp add: state_message_def stateTopic_def base_def)
  have d: "renders nts (val s) \<Longrightarrow> String_js nts (val s) = Inr (String_text nts (val s))"
    for s :: "'a sensor"
    by (cases "String_js nts (val s)") (simp_all add: renders_def String_text_def)
  from a b c d show ?thesis
    by blast
qed

lemma example_published:
  "published_sensors example_obs =
     [\<lparr>key = str ''humidity'', name = str ''Humidity'', device_class = Some (str ''humidity''),
       unit = Some (str ''%''), val = JNum ''55''\<rparr>,
      \<lparr>key = str ''temp'', name = str ''Temperature'', device_class = Some (str ''temperature''),
       unit = Some (0xB0 # str ''C''), val = JNum ''18.2''\<rparr>]"
  by (simp add: published_sensors_def example_sensors)

lemmas json_eval =
  JSON_stringify_def json_property_def stringify_device_def stringify_optional_def
  QuoteJSONString_def quote_unit_def is_high_surrogate_def is_low_surrogate_def

theorem config_then_state_for_every_sensor_witness:
  "publishToMqtt (str ''w'') str example_obs =
     (Normal,
      [\<lparr>topic = str ''homeassistant/sensor/w/humidity/config'',
        payload = str ''{\"name\":\"Weather w Humidity\",\"state_topic\":\"homeassistant/sensor/w/humidity/state\",\"unique_id\":\"w_humidity\",\"device\":{\"identifiers\":[\"w\"],\"name\":\"Weather Station w\",\"manufacturer\":\"Weather.com\"},\"device_class\":\"humidity\",\"unit_of_measurement\":\"%\"}'',
        retain = True\<rparr>,
       \<lparr>topic = str ''homeassistant/sensor/w/humidity/state'', payload = str ''55'', retain = True\<rparr>,
       \<lparr>topic = str ''homeassistant/sensor/w/temp/config'',
        payload = str ''{\"name\":\"Weather w Temperature\",\"state_topic\":\"homeassistant/sensor/w/temp/state\",\"unique_id\":\"w_temp\",\"device\":{\"identifiers\":[\"w\"],\"name\":\"Weather Station w\",\"manufacturer\":\"Weather.com\"},\"device_class\":\"temperature\",\"unit_of_measurement\":\"'' @ [0xB0] @ str ''C\"}'',
        retain = True\<rparr>,
       \<lparr>topic = str ''homeassistant/sensor/w/temp/state'', payload = str ''18.2'', retain = True\<rparr>])"
proof -
  have nn: "\<not> nullish example_obs"
    by (simp add: example_obs_def)
  have r: "renders str (JNum ''55'' :: string jsval)" "renders str (JNum ''18.2'' :: string jsval)"
    by (simp_all add: renders_def)
  from config_then_state_for_every_sensor [of "str ''w''" str example_obs] nn r
  show ?thesis
    unfolding example_published
    by (simp add: json_eval String_text_def str_def)
qed

text \<open>
  The claim as stated fails for a sensor whose value \<open>String\<close> cannot render. With a
  temperature that is an object with a property \<open>toString\<close>, the temperature is among
  the sensors that are published, and it gets one message, not two: its config message
  is the last one published, and \<open>publishToMqtt\<close> ends with the TypeError.
\<close>

theorem config_without_state_counterexample:
  "map key (published_sensors example_obs_unprintable) = [str ''humidity'', str ''temp''] \<and>
   fst (publishToMqtt (str ''w'') str example_obs_unprintable) = Thrown TypeError \<and>
   map topic (snd (publishToMqtt (str ''w'') str example_obs_unprintable)) =
     [str ''homeassistant/sensor/w/humidity/config'',
      str ''homeassistant/sensor/w/humidity/state'',
      str ''homeassistant/sensor/w/temp/config'']"
proof -
  have p: "filter (\<lambda>s. \<not> nullish (val s)) (sensors example_obs_unprintable) =
     [\<lparr>key = str ''humidity'', name = str ''Humidity'', device_class = Some (str ''humidity''),
       unit = Some (str ''%''), val = JNum ''55''\<rparr>,
      \<lparr>key = str ''temp'', name = str ''Temperature'', device_class = Some (str ''temperature''),
       unit = Some (0xB0 # str ''C''), val = JObj [(str ''toString'', JNum ''1'')]\<rparr>]"
    by (simp add: sensors_def top_sensors_def metricMap_def example_obs_unprintable_def str_def)
  have nn: "\<not> nullish example_obs_unprintable"
    by (simp add: example_obs_unprintable_def)
  have t: "topic (config_message (str ''w'') s) = str ''homeassistant/sensor/w/'' @ key s @ str ''/config''"
    "topic (state_message (str ''w'') s v) = str ''homeassistant/sensor/w/'' @ key s @ str ''/state''"
    for s :: "string sensor" and v
    by (simp_all add: config_message_def state_message_def configTopic_def stateTopic_def
        base_def str_def)
  from nn show ?thesis
    by (simp add: published_sensors_def publishToMqtt_def p
        publish_sensors_filter [of _ _ "sensors example_obs_unprintable"] t)
      (simp add: str_def)
qed

lemma publish_sensors_origin:
  "\<forall>m \<in> set (snd (publish_sensors n nts ss)).
     \<exists>s \<in> set ss. \<not> nullish (val s) \<and>
       (m = config_message n s \<or> (\<exists>v. String_js nts (val s) = Inr v \<and> m = state_message n s v))"
proof (induction ss)
  case Nil
  show ?case by simp
next
  case (Cons s ss)
  obtain c ms where r: "publish_sensors n nts ss = (c, ms)"
    by (cases "publish_sensors n nts ss")
  with Cons show ?case
    by (cases "String_js nts (val s)") auto
qed

lemma top_keys_schema: "map fst (take 4 schema) = top_keys"
  by (simp add: schema_def top_keys_def)

text \<open>
  Claim C8, as the code has it. A sensor of the metric group is put into the array only
  with a value that is neither \<open>null\<close> nor \<open>undefined\<close>; the four top-level sensors are
  always in the array, with the value the observation has, and the publishing loop
  skips those without a value; so every message published comes from a sensor of the
  array that has a value.
\<close>

theorem published_values_never_null:
  "(\<forall>s \<in> set (sensors obs). key s \<in> set metric_keys \<longrightarrow> \<not> nullish (val s)) \<and>
   map key (take 4 (sensors obs)) = top_keys \<and>
   (\<forall>s \<in> set (published_sensors obs). \<not> nullish (val s)) \<and>
   (\<forall>m \<in> set (snd (publishToMqtt n nts obs)).
      \<exists>s \<in> set (published_sensors obs).
        m = config_message n s \<or> (\<exists>v. String_js nts (val s) = Inr v \<and> m = state_message n s v))"
proof -
  have a: "\<forall>s \<in> set (sensors obs). key s \<in> set metric_keys \<longrightarrow> \<not> nullish (val s)"
  proof (intro ballI impI)
    fix s assume s: "s \<in> set (sensors obs)" and k: "key s \<in> set metric_keys"
    from k have "key s \<notin> set top_keys"
      by (rule metric_keys_not_top)
    then have "key s \<notin> set (map fst (take 4 schema))"
      by (simp add: top_keys_schema)
    then have "s \<notin> set (map (sensor_of (field_value obs)) (take 4 schema))"
      by force
    with s show "\<not> nullish (val s)"
      by (auto simp: sensors_schema)
  qed
  have b: "map key (take 4 (sensors obs)) = top_keys"
    by (simp add: sensors_def top_sensors_def top_keys_def)
  have c: "\<forall>m \<in> set (snd (publishToMqtt n nts obs)).
      \<exists>s \<in> set (published_sensors obs).
        m = config_message n s \<or> (\<exists>v. String_js nts (val s) = Inr v \<and> m = state_message n s v)"
  proof
    fix m assume "m \<in> set (snd (publishToMqtt n nts obs))"
    then have "m \<in> set (snd (publish_sensors n nts (sensors obs)))"
      by (simp add: publishToMqtt_def split: if_splits)
    with publish_sensors_origin [of n nts "sensors obs"]
    obtain s where s: "s \<in> set (sensors obs)" "\<not> nullish (val s)"
      and m: "m = config_message n s \<or> (\<exists>v. String_js nts (val s) = Inr v \<and> m = state_message n s v)"
      by blast
    from s have "s \<in> set (published_sensors obs)"
      by (simp add: published_sensors_def)
    with m show "\<exists>s \<in> set (published_sensors obs).
        m = config_message n s \<or> (\<exists>v. String_js nts (val s) = Inr v \<and> m = state_message n s v)"
      by (rule bexI)
  qed
  from a b c show ?thesis
    by (simp add: published_sensors_def)
qed

theorem published_values_never_null_witness:
  "map (\<lambda>s. (key s, nullish (val s))) (sensors example_obs) =
     [(str ''obsTimeUtc'', True), (str ''solarRadiation'', True), (str ''winddir'', True),
      (str ''humidity'', False), (str ''temp'', False)] \<and>
   map val (published_sensors example_obs) = [JNum ''55'', JNum ''18.2'']"
proof -
  have "map (\<lambda>s. (key s, nullish (val s))) (sensors example_obs) =
     [(str ''obsTimeUtc'', True), (str ''solarRadiation'', True), (str ''winddir'', True),
      (str ''humidity'', False), (str ''temp'', False)]"
    by (simp add: sensors_def top_sensors_def metricMap_def example_obs_def str_def)
  with published_values_never_null [of example_obs "str ''w''" str] show ?thesis
    by (simp add: example_published)
qed

text \<open>
  The claim as stated fails for the top-level fields: for the empty observation the
  array holds four sensors, each with the value \<open>undefined\<close>.
\<close>

theorem top_level_sensor_undefined_counterexample:
  "sensors (JObj [] :: string jsval) =
     [\<lparr>key = str ''obsTimeUtc'', name = str ''Observation Time'', device_class = None,
       unit = None, val = JUndefined\<rparr>,
      \<lparr>key = str ''solarRadiation'', name = str ''Solar Radiation'', device_class = None,
       unit = Some (str ''W/m'' @ [0xB2]), val = JUndefined\<rparr>,
      \<lparr>key = str ''winddir'', name = str ''Wind Direction'', device_class = None,
       unit = Some [0xB0], val = JUndefined\<rparr>,
      \<lparr>key = str ''humidity'', name = str ''Humidity'', device_class = Some (str ''humidity''),
       unit = Some (str ''%''), val = JUndefined\<rparr>]"
  by (simp add: sensors_def top_sensors_def)

section \<open>Fields without a value\<close>

lemma configTopic_inject [simp]: "configTopic n a = configTopic n b \<longleftrightarrow> a = b"
  by (simp add: configTopic_def)

lemma stateTopic_inject [simp]: "stateTopic n a = stateTopic n b \<longleftrightarrow> a = b"
  by (simp add: stateTopic_def)

lemma configTopic_not_stateTopic [simp]: "configTopic n a \<noteq> stateTopic m b"
proof
  assume "configTopic n a = stateTopic m b"
  then have "last (configTopic n a) = last (stateTopic m b)"
    by simp
  then show False
    by (simp add: configTopic_def stateTopic_def str_def)
qed

lemma stateTopic_not_configTopic [simp]: "stateTopic n a \<noteq> configTopic m b"
  using configTopic_not_stateTopic [of m b n a] by (simp only: not_sym)

lemma topic_messages [simp]:
  "topic (config_message n s) = configTopic n (key s)"
  "topic (state_message n s v) = stateTopic n (key s)"
  by (simp_all add: config_message_def state_message_def)

lemma published_key_value:
  assumes "s \<in> set (published_sensors obs)"
  shows "key s \<in> set schema_keys \<and> val s = field_value obs (key s) \<and> \<not> nullish (val s)"
proof -
  from assms obtain entry where e: "entry \<in> set schema" "s = sensor_of (field_value obs) entry"
    and v: "\<not> nullish (val s)"
    by (auto simp: published_sensors_schema)
  from e(1) have "fst entry \<in> set (map fst schema)"
    by simp
  with e(2) v show ?thesis
    by (simp add: schema_keys_schema)
qed












section \<open>Observations that can be published\<close>

lemma String_js_primitive: "primitive v \<Longrightarrow> \<exists>t. String_js nts v = Inr t"
  by (cases v) simp_all

lemma publish_sensors_completes:
  assumes "\<forall>s \<in> set ss. \<not> nullish (val s) \<longrightarrow> (\<exists>t. String_js nts (val s) = Inr t)"
  shows "fst (publish_sensors n nts ss) = Normal"
  using assms
proof (induction ss)
  case Nil
  show ?case by simp
next
  case (Cons s ss)
  then have "fst (publish_sensors n nts ss) = Normal"
    by simp
  moreover from Cons.prems have "\<not> nullish (val s) \<Longrightarrow> \<exists>t. String_js nts (val s) = Inr t"
    by simp
  ultimately show ?case
    by (cases "nullish (val s)") (auto split: prod.splits)
qed

text \<open>
  For every plain observation \<open>publishToMqtt\<close> returns, so that an attempt whose reply
  carries a plain observation succeeds.
\<close>

lemma plain_observation_publishable:
  assumes "plain_observation obs"
  shows "fst (publishToMqtt n nts obs) = Normal"
    and "succeeds n nts (Observations obs)"
proof -
  have "\<forall>s \<in> set (sensors obs). \<not> nullish (val s) \<longrightarrow> (\<exists>t. String_js nts (val s) = Inr t)"
  proof (intro ballI impI)
    fix s assume "s \<in> set (sensors obs)" "\<not> nullish (val s)"
    then have "s \<in> set (published_sensors obs)"
      by (simp add: published_sensors_def)
    then have "key s \<in> set schema_keys" "val s = field_value obs (key s)"
      using published_key_value by blast+
    with assms have "primitive (val s)"
      by (simp add: plain_observation_def list_all_iff)
    then show "\<exists>t. String_js nts (val s) = Inr t"
      by (rule String_js_primitive)
  qed
  then have "fst (publish_sensors n nts (sensors obs)) = Normal"
    by (rule publish_sensors_completes)
  with assms show "fst (publishToMqtt n nts obs) = Normal"
    by (simp add: publishToMqtt_def plain_observation_def)
  then show "succeeds n nts (Observations obs)"
    by (simp add: succeeds_def)
qed

end
